theory Spec2Isabelle
  imports Complex_Main "HOL-Library.AList"
begin

section \<open>Python values used by chart.py and grafico.py\<close>

text \<open>
  Exceptions are values: every raise of the two modules, and every failing subscript or
  division, is an \<open>Inl\<close> result. \<open>Exception msg\<close> is Python's \<^verbatim>\<open>Exception(msg)\<close>.
\<close>

datatype py_error = IndexError | KeyError | ZeroDivisionError | Exception string

text \<open>
  A Python \<^verbatim>\<open>dict\<close> keeps its keys in insertion order, so it is an association list
  whose keys are distinct. \<^verbatim>\<open>d[k] = v\<close> overwrites the value of a present key where it
  stands and appends an absent key at the end; \<^verbatim>\<open>d[k]\<close> raises \<^verbatim>\<open>KeyError\<close> on an
  absent key; \<^verbatim>\<open>dict(items)\<close> inserts the items of a list one after the other.
\<close>

type_synonym ('k, 'v) dict = "('k \<times> 'v) list"

definition dict_setitem :: "('k, 'v) dict \<Rightarrow> 'k \<Rightarrow> 'v \<Rightarrow> ('k, 'v) dict" where
  "dict_setitem d k v = AList.update k v d"

definition dict_getitem :: "('k, 'v) dict \<Rightarrow> 'k \<Rightarrow> py_error + 'v" where
  "dict_getitem d k = (case map_of d k of None \<Rightarrow> Inl KeyError | Some v \<Rightarrow> Inr v)"

definition dict_of_items :: "('k \<times> 'v) list \<Rightarrow> ('k, 'v) dict" where
  "dict_of_items kvs = fold (\<lambda>(k, v) d. dict_setitem d k v) kvs []"

text \<open>
  \<^verbatim>\<open>sorted(items, key=f)\<close> is a stable sort, ascending in the key; \<open>sort_key\<close> is the
  stable insertion sort of the list library.
\<close>

definition py_sorted :: "('a \<Rightarrow> nat) \<Rightarrow> 'a list \<Rightarrow> 'a list" where
  "py_sorted f xs = sort_key f xs"

text \<open>
  \<^verbatim>\<open>xs[i]\<close> for an index \<open>i \<ge> 0\<close> raises \<^verbatim>\<open>IndexError\<close> past the end.
\<close>

definition py_index :: "'a list \<Rightarrow> nat \<Rightarrow> py_error + 'a" where
  "py_index xs i = (if i < length xs then Inr (xs ! i) else Inl IndexError)"

text \<open>
  \<^verbatim>\<open>a / b\<close> on two integers raises \<^verbatim>\<open>ZeroDivisionError\<close> when \<open>b\<close> is zero. Otherwise
  Python returns the double nearest to the quotient; the model keeps the exact quotient.
  The only use of the quotient is its comparison with the literals \<^verbatim>\<open>0.9\<close> and
  \<^verbatim>\<open>0.1\<close>, and for operands below \<open>2\<^sup>3\<^sup>5\<close> in size (every difference of two second
  counts of 64-bit nanosecond timestamps) the quotient of two integers is either equal to
  nine tenths (one tenth) or further from it than the rounding of either side moves it,
  so the comparison of the doubles and the comparison of the exact values agree.
\<close>

definition py_truediv :: "int \<Rightarrow> int \<Rightarrow> py_error + rat" where
  "py_truediv a b = (if b = 0 then Inl ZeroDivisionError else Inr (of_int a / of_int b))"

section \<open>The response of the market-data endpoint\<close>

text \<open>
  The JSON body has the properties \<^verbatim>\<open>result\<close> and \<^verbatim>\<open>allowance\<close>; only the first is
  read. \<^verbatim>\<open>result\<close> maps an interval label to its list of candles. The selector reads
  the number of candles only, so the type of a candle is a parameter.
\<close>

record 'c ohlc_data =
  result :: "(string, 'c list) dict"

section \<open>The interval selector of chart.py\<close>

text \<open>
  The first loop of \<^verbatim>\<open>_get_optimal_interval\<close>:
  \<^verbatim>\<open>for interval in data['result']: intervals[interval] = len(data['result'][interval])\<close>.
\<close>

fun count_sizes ::
  "string list \<Rightarrow> (string, 'c list) dict \<Rightarrow> (string, nat) dict \<Rightarrow> py_error + (string, nat) dict"
where
  "count_sizes [] res intervals = Inr intervals"
| "count_sizes (interval # rest) res intervals =
     (case dict_getitem res interval of
        Inl e \<Rightarrow> Inl e
      | Inr candles \<Rightarrow> count_sizes rest res (dict_setitem intervals interval (length candles)))"

text \<open>
  The second loop:
  \<^verbatim>\<open>for interval in sorted_intervals: size = sorted_intervals[interval];
     if optimal_size < size: return interval\<close>.
  \<open>Inr None\<close> says that the loop ended without returning.
\<close>

fun first_above ::
  "string list \<Rightarrow> (string, nat) dict \<Rightarrow> nat \<Rightarrow> py_error + string option"
where
  "first_above [] sorted_intervals optimal_size = Inr None"
| "first_above (interval # rest) sorted_intervals optimal_size =
     (case dict_getitem sorted_intervals interval of
        Inl e \<Rightarrow> Inl e
      | Inr sz \<Rightarrow>
          if optimal_size < sz then Inr (Some interval)
          else first_above rest sorted_intervals optimal_size)"

text \<open>
  The local \<^verbatim>\<open>sorted_intervals\<close>:
  \<^verbatim>\<open>dict(sorted(intervals.items(), key=lambda x: x[1]))\<close>.
\<close>

definition sorted_intervals :: "'c ohlc_data \<Rightarrow> py_error + (string, nat) dict" where
  "sorted_intervals data =
     (case count_sizes (map fst (result data)) (result data) [] of
        Inl e \<Rightarrow> Inl e
      | Inr intervals \<Rightarrow> Inr (dict_of_items (py_sorted snd intervals)))"

text \<open>
  \<^verbatim>\<open>_get_optimal_interval(time, data)\<close>. A string is true when it is not empty. The
  result \<open>Inr None\<close> is Python's \<^verbatim>\<open>None\<close>; \<^verbatim>\<open>list(...)[-1]\<close> raises
  \<^verbatim>\<open>IndexError\<close> on the empty list.
\<close>

definition get_optimal_interval :: "string \<Rightarrow> 'c ohlc_data \<Rightarrow> py_error + string option" where
  "get_optimal_interval time data =
     (if time \<noteq> [] then Inr (Some time)
      else
        let optimal_size = 500 in
        case sorted_intervals data of
          Inl e \<Rightarrow> Inl e
        | Inr sorted_ivs \<Rightarrow>
            (case first_above (map fst sorted_ivs) sorted_ivs optimal_size of
               Inl e \<Rightarrow> Inl e
             | Inr (Some interval) \<Rightarrow> Inr (Some interval)
             | Inr None \<Rightarrow>
                 (case sorted_ivs of
                    [] \<Rightarrow> Inl IndexError
                  | _ # _ \<Rightarrow>
                      (case last sorted_ivs of
                         (interval, sz) \<Rightarrow>
                           if sz = 0 then Inr None else Inr (Some interval)))))"

text \<open>
  \<^verbatim>\<open>_get_ohlcv_data\<close> from \<^verbatim>\<open>data = response.json()\<close> on: the request and
  \<^verbatim>\<open>raise_for_status\<close> belong to the HTTP library, and \<open>data\<close> is the body they
  deliver.
\<close>

definition get_ohlcv_data :: "string \<Rightarrow> 'c ohlc_data \<Rightarrow> py_error + 'c list" where
  "get_ohlcv_data interval data =
     (case get_optimal_interval interval data of
        Inl e \<Rightarrow> Inl e
      | Inr None \<Rightarrow> Inl (Exception ''The intervals in the response are empty!'')
      | Inr (Some optimal_interval) \<Rightarrow> dict_getitem (result data) optimal_interval)"

section \<open>The interval selector of grafico.py\<close>

fun contar_tamanos ::
  "string list \<Rightarrow> (string, 'c list) dict \<Rightarrow> (string, nat) dict \<Rightarrow> py_error + (string, nat) dict"
where
  "contar_tamanos [] res intervalos = Inr intervalos"
| "contar_tamanos (intervalo # resto) res intervalos =
     (case dict_getitem res intervalo of
        Inl e \<Rightarrow> Inl e
      | Inr velas \<Rightarrow> contar_tamanos resto res (dict_setitem intervalos intervalo (length velas)))"

fun primero_mayor ::
  "string list \<Rightarrow> (string, nat) dict \<Rightarrow> nat \<Rightarrow> py_error + string option"
where
  "primero_mayor [] intervalos_ordenados tamano_optimo = Inr None"
| "primero_mayor (intervalo # resto) intervalos_ordenados tamano_optimo =
     (case dict_getitem intervalos_ordenados intervalo of
        Inl e \<Rightarrow> Inl e
      | Inr tamano \<Rightarrow>
          if tamano_optimo < tamano then Inr (Some intervalo)
          else primero_mayor resto intervalos_ordenados tamano_optimo)"

definition intervalos_ordenados :: "'c ohlc_data \<Rightarrow> py_error + (string, nat) dict" where
  "intervalos_ordenados datos =
     (case contar_tamanos (map fst (result datos)) (result datos) [] of
        Inl e \<Rightarrow> Inl e
      | Inr intervalos \<Rightarrow> Inr (dict_of_items (py_sorted snd intervalos)))"

definition calculo_intervalo_optimo :: "string \<Rightarrow> 'c ohlc_data \<Rightarrow> py_error + string option" where
  "calculo_intervalo_optimo tiempo datos =
     (if tiempo \<noteq> [] then Inr (Some tiempo)
      else
        let tamano_optimo = 500 in
        case intervalos_ordenados datos of
          Inl e \<Rightarrow> Inl e
        | Inr ordenados \<Rightarrow>
            (case primero_mayor (map fst ordenados) ordenados tamano_optimo of
               Inl e \<Rightarrow> Inl e
             | Inr (Some intervalo) \<Rightarrow> Inr (Some intervalo)
             | Inr None \<Rightarrow>
                 (case ordenados of
                    [] \<Rightarrow> Inl IndexError
                  | _ # _ \<Rightarrow>
                      (case last ordenados of
                         (intervalo, tamano) \<Rightarrow>
                           if tamano = 0 then Inr None else Inr (Some intervalo)))))"

section \<open>The chart object of chart.py\<close>

text \<open>
  A pandas \<^verbatim>\<open>Timestamp\<close> is its \<^verbatim>\<open>value\<close>: the nanoseconds since the epoch. All
  timestamps of a chart are localised to the same zone, so they compare as their values do.
\<close>

type_synonym timestamp = int

text \<open>
  A candle of the response is \<^verbatim>\<open>[time, open, high, low, close, volume]\<close>. The type
  \<open>'n\<close> stands for the JSON numbers.
\<close>

type_synonym 'n candle = "int \<times> 'n \<times> 'n \<times> 'n \<times> 'n \<times> 'n"

text \<open>
  The traces of the figure, with the attributes that vary: \<open>Candlestick x open high low
  close\<close>, \<open>Bar x y\<close> and the one-point \<open>Scatter x y colour\<close>. An annotation keeps its
  position, its text and its horizontal offset \<^verbatim>\<open>ax\<close>; the other attributes are the
  same constants in every call.
\<close>

datatype 'n trace =
    Candlestick "timestamp list" "'n list" "'n list" "'n list" "'n list"
  | Bar "timestamp list" "'n list"
  | Scatter timestamp 'n string

record 'n annotation =
  ann_x :: timestamp
  ann_y :: 'n
  ann_text :: string
  ann_ax :: int

record 'n figure =
  fig_data :: "'n trace list"
  fig_annotations :: "'n annotation list"

record 'n chart =
  pair :: string
  start_date :: timestamp
  end_date :: timestamp
  fig :: "'n figure"

definition append_trace :: "'n figure \<Rightarrow> 'n trace \<Rightarrow> 'n figure" where
  "append_trace f t = f\<lparr>fig_data := fig_data f @ [t]\<rparr>"

definition add_annotation :: "'n figure \<Rightarrow> 'n annotation \<Rightarrow> 'n figure" where
  "add_annotation f a = f\<lparr>fig_annotations := fig_annotations f @ [a]\<rparr>"

text \<open>
  \<^verbatim>\<open>__create_figure(data)\<close>: the candlestick trace, then the volume trace. The times
  of the candles are seconds and become timestamps.
\<close>

definition create_figure :: "'n candle list \<Rightarrow> 'n figure" where
  "create_figure data =
     (let dates = map (\<lambda>(t, opn, high, low, close, volume). t * 10 ^ 9) data;
          candlesticks =
            Candlestick dates
              (map (\<lambda>(t, opn, high, low, close, volume). opn) data)
              (map (\<lambda>(t, opn, high, low, close, volume). high) data)
              (map (\<lambda>(t, opn, high, low, close, volume). low) data)
              (map (\<lambda>(t, opn, high, low, close, volume). close) data);
          volumen = Bar dates (map (\<lambda>(t, opn, high, low, close, volume). volume) data);
          empty_fig = \<lparr>fig_data = [], fig_annotations = []\<rparr>
      in append_trace (append_trace empty_fig candlesticks) volumen)"

text \<open>
  \<^verbatim>\<open>__get_note_position_x(point_date)\<close>. \<^verbatim>\<open>//\<close> rounds down, as \<open>div\<close> on \<open>int\<close>
  does.
\<close>

definition get_note_position_x :: "'n chart \<Rightarrow> timestamp \<Rightarrow> py_error + int" where
  "get_note_position_x self point_date =
     (let start_posix = start_date self div 10 ^ 9;
          end_posix = end_date self div 10 ^ 9;
          point_difference = end_posix - point_date div 10 ^ 9;
          difference = end_posix - start_posix
      in case py_truediv point_difference difference of
           Inl e \<Rightarrow> Inl e
         | Inr percentage \<Rightarrow>
             if percentage > 9 / 10 then Inr 100
             else if percentage < 1 / 10 then Inr (- 100)
             else Inr 20)"

text \<open>
  \<^verbatim>\<open>add_buy_sell_point(label, quantity, price, date)\<close>. The method changes the figure in
  place, so the model returns the chart as the call leaves it together with the outcome:
  an exception raised after \<^verbatim>\<open>append_trace\<close> leaves the new trace in the figure.
  Two values come from the libraries and are parameters: \<open>point_date\<close> is the timestamp
  that pandas parses from \<open>date\<close>, and \<open>fmt\<close> is the text that \<^verbatim>\<open>str.format\<close> builds
  from the label, the quantity, the pair, the price and the date.
\<close>

definition add_buy_sell_point ::
  "(string \<Rightarrow> 'n \<Rightarrow> string \<Rightarrow> 'n \<Rightarrow> string \<Rightarrow> string) \<Rightarrow>
   'n chart \<Rightarrow> string \<Rightarrow> 'n \<Rightarrow> 'n \<Rightarrow> string \<Rightarrow> timestamp \<Rightarrow> (py_error + unit) \<times> 'n chart"
where
  "add_buy_sell_point fmt self label quantity price date point_date =
     (if point_date < start_date self \<or> point_date > end_date self then (Inr (), self)
      else
        let annotation = fmt label quantity (pair self) price date;
            color_point = (if label = ''b'' \<or> label = ''B'' then ''#bbdc86'' else ''#e70039'');
            figure_point = Scatter point_date price color_point;
            self1 = self\<lparr>fig := append_trace (fig self) figure_point\<rparr>
        in case get_note_position_x self1 point_date of
             Inl e \<Rightarrow> (Inl e, self1)
           | Inr pos \<Rightarrow>
               (Inr (),
                self1\<lparr>fig := add_annotation (fig self1)
                  \<lparr>ann_x = point_date, ann_y = price, ann_text = annotation, ann_ax = pos\<rparr>\<rparr>))"

text \<open>
  \<^verbatim>\<open>delete_buy_sell_points()\<close>: the right-hand side
  \<^verbatim>\<open>[self.__fig.data[0], self.__fig.data[1]]\<close> is evaluated before anything is assigned.
\<close>

definition delete_buy_sell_points :: "'n chart \<Rightarrow> (py_error + unit) \<times> 'n chart" where
  "delete_buy_sell_points self =
     (case py_index (fig_data (fig self)) 0 of
        Inl e \<Rightarrow> (Inl e, self)
      | Inr t0 \<Rightarrow>
          (case py_index (fig_data (fig self)) 1 of
             Inl e \<Rightarrow> (Inl e, self)
           | Inr t1 \<Rightarrow>
               (Inr (), self\<lparr>fig := (fig self)\<lparr>fig_data := [t0, t1], fig_annotations := []\<rparr>\<rparr>)))"

text \<open>\<^verbatim>\<open>borrar_puntos_compra_venta()\<close> of grafico.py.\<close>

definition borrar_puntos_compra_venta :: "'n chart \<Rightarrow> (py_error + unit) \<times> 'n chart" where
  "borrar_puntos_compra_venta self =
     (case py_index (fig_data (fig self)) 0 of
        Inl e \<Rightarrow> (Inl e, self)
      | Inr traza0 \<Rightarrow>
          (case py_index (fig_data (fig self)) 1 of
             Inl e \<Rightarrow> (Inl e, self)
           | Inr traza1 \<Rightarrow>
               (Inr (), self\<lparr>fig := (fig self)\<lparr>fig_data := [traza0, traza1], fig_annotations := []\<rparr>\<rparr>)))"

section \<open>Vocabulary of the statements\<close>

text \<open>The point count of every bucket of a response, in the order of the mapping.\<close>

definition sizes :: "(string, 'c list) dict \<Rightarrow> (string \<times> nat) list" where
  "sizes res = map (\<lambda>(k, candles). (k, length candles)) res"

section \<open>Example responses\<close>

definition dense_response :: "nat ohlc_data" where
  "dense_response =
     \<lparr>result = [(''60'', replicate 600 0), (''180'', replicate 501 0),
                (''300'', replicate 3 0), (''900'', replicate 501 0)]\<rparr>"

definition sparse_response :: "nat ohlc_data" where
  "sparse_response =
     \<lparr>result = [(''60'', []), (''180'', replicate 7 0), (''300'', replicate 3 0),
                (''900'', replicate 7 0)]\<rparr>"

definition empty_response :: "nat ohlc_data" where
  "empty_response = \<lparr>result = [(''60'', []), (''180'', [])]\<rparr>"

section \<open>Example charts\<close>

text \<open>
  A chart of btceur from 20/01/2018 to 20/02/2018 (Europe/Madrid) with one candle, the
  same chart with a range of no length, the same chart with the two dates exchanged (the
  constructor does not compare them), and the first chart after a purchase inside the
  range and a sale at its end.
\<close>

definition example_fmt :: "string \<Rightarrow> rat \<Rightarrow> string \<Rightarrow> rat \<Rightarrow> string \<Rightarrow> string" where
  "example_fmt label quantity coin price date = label @ '' '' @ coin @ '' '' @ date"

definition example_chart :: "rat chart" where
  "example_chart =
     \<lparr>pair = ''btceur'',
      start_date = 1516402800 * 10 ^ 9,
      end_date = 1519081200 * 10 ^ 9,
      fig = create_figure [(1516406400, 9000, 9100, 8900, 9050, 12)]\<rparr>"

definition degenerate_chart :: "rat chart" where
  "degenerate_chart = example_chart\<lparr>end_date := 1516402800 * 10 ^ 9\<rparr>"

definition reversed_chart :: "rat chart" where
  "reversed_chart =
     example_chart\<lparr>start_date := 1519081200 * 10 ^ 9, end_date := 1516402800 * 10 ^ 9\<rparr>"

definition marked_chart :: "rat chart" where
  "marked_chart =
     snd (add_buy_sell_point example_fmt
       (snd (add_buy_sell_point example_fmt example_chart
          ''b'' (2 / 10000) 40000 ''01/02/2018 22:13'' (1517519580 * 10 ^ 9)))
       ''s'' (2 / 10000) 40000 ''20/02/2018 00:00'' (1519081200 * 10 ^ 9))"

section \<open>Facts about dictionaries\<close>

lemma setitem_fresh:
  "k \<notin> fst ` set d \<Longrightarrow> dict_setitem d k v = d @ [(k, v)]"
  unfolding dict_setitem_def by (induction d) auto

lemma getitem_member:
  "distinct (map fst d) \<Longrightarrow> (k, v) \<in> set d \<Longrightarrow> dict_getitem d k = Inr v"
  unfolding dict_getitem_def by simp

lemma fold_setitem_distinct:
  "distinct (map fst (acc @ kvs)) \<Longrightarrow>
   fold (\<lambda>(k, v) d. dict_setitem d k v) kvs acc = acc @ kvs"
proof (induction kvs arbitrary: acc)
  case Nil
  then show ?case by simp
next
  case (Cons p kvs)
  obtain k v where p: "p = (k, v)" by (cases p)
  from Cons.prems p have fresh: "k \<notin> fst ` set acc" by auto
  from Cons.prems p have "distinct (map fst ((acc @ [(k, v)]) @ kvs))" by simp
  from Cons.IH [OF this] show ?case
    by (simp add: p setitem_fresh [OF fresh])
qed

lemma dict_of_items_distinct:
  "distinct (map fst kvs) \<Longrightarrow> dict_of_items kvs = kvs"
  unfolding dict_of_items_def using fold_setitem_distinct [of "[]" kvs] by simp

section \<open>The selector on a well-formed response\<close>

text \<open>
  The keys of a dictionary are distinct. Then no subscript of the selector fails, the first
  loop computes \<open>sizes\<close>, and the selector is a search in the sorted sizes.
\<close>

lemma map_fst_sizes: "map fst (sizes res) = map fst res"
  unfolding sizes_def by (induction res) auto

lemma count_sizes_acc:
  "distinct (map fst res) \<Longrightarrow> set xs \<subseteq> set res \<Longrightarrow> distinct (map fst acc @ map fst xs) \<Longrightarrow>
   count_sizes (map fst xs) res acc = Inr (acc @ sizes xs)"
proof (induction xs arbitrary: acc)
  case Nil
  then show ?case by (simp add: sizes_def)
next
  case (Cons p xs)
  obtain k cs where p: "p = (k, cs)" by (cases p)
  from Cons.prems p have get: "dict_getitem res k = Inr cs"
    by (auto intro: getitem_member)
  from Cons.prems p have fresh: "k \<notin> fst ` set acc" by auto
  from Cons.prems p have d: "distinct (map fst (acc @ [(k, length cs)]) @ map fst xs)"
    by auto
  from Cons.prems have sub: "set xs \<subseteq> set res" by simp
  from Cons.IH [OF Cons.prems(1) sub d] show ?case
    by (simp add: p get setitem_fresh [OF fresh] sizes_def)
qed

lemma count_sizes_result:
  "distinct (map fst res) \<Longrightarrow> count_sizes (map fst res) res [] = Inr (sizes res)"
  using count_sizes_acc [of res res "[]"] by simp

lemma distinct_keys_sort:
  "distinct (map fst xs) \<Longrightarrow> distinct (map fst (sort_key f xs))"
  by (simp add: distinct_map)

lemma sorted_intervals_eq:
  "distinct (map fst (result data)) \<Longrightarrow>
   sorted_intervals data = Inr (sort_key snd (sizes (result data)))"
  by (simp add: sorted_intervals_def count_sizes_result py_sorted_def
      dict_of_items_distinct distinct_keys_sort map_fst_sizes)

lemma first_above_find:
  "distinct (map fst d) \<Longrightarrow> set xs \<subseteq> set d \<Longrightarrow>
   first_above (map fst xs) d n = Inr (map_option fst (List.find (\<lambda>p. n < snd p) xs))"
proof (induction xs)
  case Nil
  then show ?case by simp
next
  case (Cons p xs)
  obtain k v where p: "p = (k, v)" by (cases p)
  from Cons.prems p have get: "dict_getitem d k = Inr v"
    by (auto intro: getitem_member)
  from Cons show ?case by (simp add: p get)
qed

lemma get_optimal_interval_unforced:
  assumes "distinct (map fst (result data))"
  shows "get_optimal_interval [] data =
     (let s = sort_key snd (sizes (result data)) in
      case List.find (\<lambda>p. 500 < snd p) s of
        Some p \<Rightarrow> Inr (Some (fst p))
      | None \<Rightarrow>
          if s = [] then Inl IndexError
          else if snd (last s) = 0 then Inr None
          else Inr (Some (fst (last s))))"
proof -
  let ?s = "sort_key snd (sizes (result data))"
  have d: "distinct (map fst ?s)"
    using assms by (simp add: distinct_keys_sort map_fst_sizes)
  have fa: "first_above (map fst ?s) ?s 500 = Inr (map_option fst (List.find (\<lambda>p. 500 < snd p) ?s))"
    using first_above_find [OF d, of ?s 500] by simp
  show ?thesis
    by (simp add: get_optimal_interval_def sorted_intervals_eq [OF assms] fa Let_def
        split: option.splits list.splits prod.splits)
qed

lemma set_sizes: "set (sizes res) = (\<lambda>(k, candles). (k, length candles)) ` set res"
  unfolding sizes_def by simp

lemma find_Some_mem: "List.find P xs = Some p \<Longrightarrow> p \<in> set xs \<and> P p"
  by (induction xs) (auto split: if_splits)

lemma sort_key_Nil_iff: "sort_key f xs = [] \<longleftrightarrow> xs = []"
  using length_sort [of f xs] by (metis length_0_conv)

lemma find_sorted_least:
  "sorted (map f xs) \<Longrightarrow> List.find P xs = Some p \<Longrightarrow> q \<in> set xs \<Longrightarrow> P q \<Longrightarrow> f p \<le> f q"
  by (induction xs) (auto split: if_splits)

lemma sorted_last_greatest:
  "sorted (map f xs) \<Longrightarrow> q \<in> set xs \<Longrightarrow> f q \<le> f (last xs)"
  by (induction xs) (auto split: if_splits)

lemma find_first_of_key:
  "List.find P xs = Some p \<Longrightarrow> (\<And>q. f q = f p \<Longrightarrow> P q) \<Longrightarrow>
   List.find (\<lambda>q. f q = f p) xs = Some p"
  by (induction xs) (auto split: if_splits)

lemma find_as_filter:
  "List.find Q xs = (case filter Q xs of [] \<Rightarrow> None | y # _ \<Rightarrow> Some y)"
  by (induction xs) auto

lemma find_sizes:
  "List.find (\<lambda>q. snd q = n) (sizes res) =
   map_option (\<lambda>(k, candles). (k, length candles))
     (List.find (\<lambda>(k, candles). length candles = n) res)"
  unfolding sizes_def by (induction res) auto

section \<open>The selectors\<close>

text \<open>
  C4. A forced interval that is not the empty string is returned as it is, whatever the
  response holds: no key of \<open>result\<close> is looked up.
\<close>

theorem forced_interval_returned:
  "time \<noteq> [] \<Longrightarrow> get_optimal_interval time data = Inr (Some time)"
  by (simp add: get_optimal_interval_def)

theorem forced_interval_returned_witness:
  "''300'' \<noteq> [] \<and> ''300'' \<notin> fst ` set (result \<lparr>result = [(''60'', [1::nat, 2])]\<rparr>)
   \<and> get_optimal_interval ''300'' \<lparr>result = [(''60'', [1::nat, 2])]\<rparr> = Inr (Some ''300'')"
  using forced_interval_returned [of "''300''" "\<lparr>result = [(''60'', [1::nat, 2])]\<rparr>"]
  by simp

lemma contar_tamanos_eq: "contar_tamanos ks res acc = count_sizes ks res acc"
  by (induction ks arbitrary: acc) (auto split: sum.splits)

lemma primero_mayor_eq: "primero_mayor ks d n = first_above ks d n"
  by (induction ks) (auto split: sum.splits)

text \<open>
  C9. The selector of grafico.py and the selector of chart.py return the same result on
  every forced interval and every response.
\<close>

theorem selectors_agree:
  "calculo_intervalo_optimo tiempo datos = get_optimal_interval tiempo datos"
  by (simp add: calculo_intervalo_optimo_def get_optimal_interval_def
      intervalos_ordenados_def sorted_intervals_def contar_tamanos_eq primero_mayor_eq
      cong: sum.case_cong)

text \<open>
  C1. When some bucket of the response holds more than 500 candles, the selector without a
  forced interval returns the label of a bucket with more than 500 candles, and no bucket
  with more than 500 candles holds fewer candles than that one.
\<close>

theorem smallest_above_target:
  assumes dist: "distinct (map fst (result data))"
    and some: "\<exists>(k, candles) \<in> set (result data). 500 < length candles"
  shows "\<exists>k candles. get_optimal_interval [] data = Inr (Some k)
           \<and> (k, candles) \<in> set (result data) \<and> 500 < length candles
           \<and> (\<forall>(k', candles') \<in> set (result data).
                 500 < length candles' \<longrightarrow> length candles \<le> length candles')"
proof -
  let ?s = "sort_key snd (sizes (result data))"
  from some obtain k0 c0 where "(k0, c0) \<in> set (result data)" "500 < length c0" by auto
  then have "(k0, length c0) \<in> set ?s \<and> 500 < snd (k0, length c0)"
    by (force simp: set_sizes)
  then have "List.find (\<lambda>p. 500 < snd p) ?s \<noteq> None"
    unfolding find_None_iff by blast
  then obtain p where fp: "List.find (\<lambda>p. 500 < snd p) ?s = Some p" by auto
  then have "p \<in> set ?s" and big: "500 < snd p"
    by (auto dest: find_Some_mem)
  then obtain k candles where kc: "(k, candles) \<in> set (result data)" and p: "p = (k, length candles)"
    by (auto simp: set_sizes)
  have ret: "get_optimal_interval [] data = Inr (Some k)"
    by (simp add: get_optimal_interval_unforced [OF dist] fp p)
  have least: "length candles \<le> length candles'"
    if "(k', candles') \<in> set (result data)" "500 < length candles'" for k' candles'
  proof -
    from that have "(k', length candles') \<in> set ?s" by (force simp: set_sizes)
    from find_sorted_least [of snd ?s _ p, OF _ fp this] that(2) show ?thesis
      by (simp add: p)
  qed
  from ret kc big p least show ?thesis by fastforce
qed

theorem smallest_above_target_witness:
  "distinct (map fst (result dense_response))
   \<and> (\<exists>(k, candles) \<in> set (result dense_response). 500 < length candles)
   \<and> (\<exists>k candles. get_optimal_interval [] dense_response = Inr (Some k)
           \<and> (k, candles) \<in> set (result dense_response) \<and> 500 < length candles
           \<and> (\<forall>(k', candles') \<in> set (result dense_response).
                 500 < length candles' \<longrightarrow> length candles \<le> length candles'))"
proof -
  have h1: "distinct (map fst (result dense_response))"
    by (simp add: dense_response_def)
  have h2: "\<exists>(k, candles) \<in> set (result dense_response). 500 < length candles"
    by (simp add: dense_response_def)
  from smallest_above_target [OF h1 h2] h1 h2 show ?thesis by blast
qed

text \<open>
  C2. When no bucket holds more than 500 candles and some bucket holds at least one, the
  selector without a forced interval returns the label of a bucket with the largest
  number of candles.
\<close>

theorem largest_when_none_above:
  assumes dist: "distinct (map fst (result data))"
    and small: "\<forall>(k, candles) \<in> set (result data). length candles \<le> 500"
    and pos: "\<exists>(k, candles) \<in> set (result data). 0 < length candles"
  shows "\<exists>k candles. get_optimal_interval [] data = Inr (Some k)
           \<and> (k, candles) \<in> set (result data)
           \<and> (\<forall>(k', candles') \<in> set (result data). length candles' \<le> length candles)"
proof -
  let ?s = "sort_key snd (sizes (result data))"
  from small have none: "List.find (\<lambda>p. 500 < snd p) ?s = None"
    unfolding find_None_iff by (fastforce simp: set_sizes)
  from pos obtain k0 c0 where m0: "(k0, c0) \<in> set (result data)" and p0: "0 < length c0" by auto
  then have in0: "(k0, length c0) \<in> set ?s" by (force simp: set_sizes)
  then have ne: "?s \<noteq> []" by (auto simp: sort_key_Nil_iff)
  then have "last ?s \<in> set ?s" by (rule last_in_set)
  then obtain k candles where kc: "(k, candles) \<in> set (result data)"
    and l: "last ?s = (k, length candles)"
    by (auto simp: set_sizes)
  have greatest: "length candles' \<le> length candles"
    if "(k', candles') \<in> set (result data)" for k' candles'
  proof -
    from that have "(k', length candles') \<in> set ?s" by (force simp: set_sizes)
    from sorted_last_greatest [of snd ?s, OF _ this] show ?thesis by (simp add: l)
  qed
  from greatest [OF m0] p0 have nz: "length candles \<noteq> 0" by linarith
  have ret: "get_optimal_interval [] data = Inr (Some k)"
    using ne nz by (simp add: get_optimal_interval_unforced [OF dist] none l Let_def)
  from ret kc greatest show ?thesis by fastforce
qed

theorem largest_when_none_above_witness:
  "distinct (map fst (result sparse_response))
   \<and> list_all (\<lambda>(k, candles). length candles \<le> 500) (result sparse_response)
   \<and> (\<exists>(k, candles) \<in> set (result sparse_response). 0 < length candles)
   \<and> (\<exists>k candles. get_optimal_interval [] sparse_response = Inr (Some k)
           \<and> (k, candles) \<in> set (result sparse_response)
           \<and> (\<forall>(k', candles') \<in> set (result sparse_response). length candles' \<le> length candles))"
proof -
  have h1: "distinct (map fst (result sparse_response))"
    by (simp add: sparse_response_def)
  have h2: "\<forall>(k, candles) \<in> set (result sparse_response). length candles \<le> 500"
    by (simp add: sparse_response_def)
  have h3: "\<exists>(k, candles) \<in> set (result sparse_response). 0 < length candles"
    by (simp add: sparse_response_def)
  from h2 have h2': "list_all (\<lambda>(k, candles). length candles \<le> 500) (result sparse_response)"
    by (simp only: list_all_iff)
  from largest_when_none_above [OF h1 h2 h3] h1 h2' h3 show ?thesis by blast
qed

text \<open>
  C3. When the response has buckets and all of them are empty, the selector without a
  forced interval returns \<^verbatim>\<open>None\<close>, and \<^verbatim>\<open>_get_ohlcv_data\<close> raises its exception
  instead of returning candles.
\<close>

theorem all_empty_no_interval:
  assumes dist: "distinct (map fst (result data))"
    and ne: "result data \<noteq> []"
    and zero: "\<forall>(k, candles) \<in> set (result data). length candles = 0"
  shows "get_optimal_interval [] data = Inr None
         \<and> get_ohlcv_data [] data = Inl (Exception ''The intervals in the response are empty!'')"
proof -
  let ?s = "sort_key snd (sizes (result data))"
  from zero have none: "List.find (\<lambda>p. 500 < snd p) ?s = None"
    unfolding find_None_iff by (fastforce simp: set_sizes)
  from ne have sne: "?s \<noteq> []" by (simp add: sort_key_Nil_iff sizes_def)
  then have "last ?s \<in> set ?s" by (rule last_in_set)
  with zero have "snd (last ?s) = 0" by (auto simp: set_sizes)
  with sne have "get_optimal_interval [] data = Inr None"
    by (simp add: get_optimal_interval_unforced [OF dist] none Let_def)
  then show ?thesis by (simp add: get_ohlcv_data_def)
qed

theorem all_empty_no_interval_witness:
  "distinct (map fst (result empty_response)) \<and> result empty_response \<noteq> []
   \<and> list_all (\<lambda>(k, candles). length candles = 0) (result empty_response)
   \<and> get_optimal_interval [] empty_response = Inr None
   \<and> get_ohlcv_data [] empty_response
       = Inl (Exception ''The intervals in the response are empty!'')"
proof -
  have h1: "distinct (map fst (result empty_response))"
    by (simp add: empty_response_def)
  have h2: "result empty_response \<noteq> []"
    by (simp add: empty_response_def)
  have h3: "\<forall>(k, candles) \<in> set (result empty_response). length candles = 0"
    by (simp add: empty_response_def)
  from h3 have h3': "list_all (\<lambda>(k, candles). length candles = 0) (result empty_response)"
    by (simp only: list_all_iff)
  from all_empty_no_interval [OF h1 h2 h3] h1 h2 h3' show ?thesis by blast
qed

lemma last_filter_keep: "xs \<noteq> [] \<Longrightarrow> P (last xs) \<Longrightarrow> last (filter P xs) = last xs"
  by (induction xs rule: rev_induct) auto

lemma find_rev_as_filter:
  "List.find P (rev xs) = (if filter P xs = [] then None else Some (last (filter P xs)))"
proof -
  have "List.find P (rev xs) = (case rev (filter P xs) of [] \<Rightarrow> None | y # _ \<Rightarrow> Some y)"
    by (simp add: find_as_filter rev_filter)
  also have "\<dots> = (if filter P xs = [] then None else Some (last (filter P xs)))"
    by (cases "filter P xs" rule: rev_cases) auto
  finally show ?thesis .
qed

lemma sizes_rev: "sizes (rev res) = rev (sizes res)"
  by (simp add: sizes_def rev_map)

lemma bucket_of_size:
  assumes dist: "distinct (map fst res)"
    and kc: "(k, candles) \<in> set res"
    and f: "List.find (\<lambda>q. snd q = length candles) (sizes xs) = Some (k, length candles)"
    and sub: "set xs \<subseteq> set res"
  shows "List.find (\<lambda>(k', candles'). length candles' = length candles) xs = Some (k, candles)"
proof -
  from f obtain k2 c2 where
    f2: "List.find (\<lambda>(k', candles'). length candles' = length candles) xs = Some (k2, c2)"
    and e2: "(k2, length c2) = (k, length candles)"
    by (auto simp: find_sizes)
  from f2 sub have "(k2, c2) \<in> set res" by (auto dest: find_Some_mem)
  with e2 dist kc have "k2 = k \<and> c2 = candles" by (auto dest: eq_key_imp_eq_value)
  with f2 show ?thesis by simp
qed

text \<open>
  C8. Without a forced interval the selector walks the buckets in ascending order of their
  point count, and buckets of one count in the order they have in the mapping: its result
  is the result of the walk over the sorted dictionary, which holds the sizes of the
  response, sorted by count, and which restricted to any one count is the mapping
  restricted to that count. So, when some bucket holds more than 500 candles, the label
  returned is that of the first bucket of the mapping among those with the least count
  above 500; and when the walk finds nothing and the last bucket considered is returned,
  it is the last bucket of the mapping among those with the greatest count.
\<close>

theorem ties_in_mapping_order:
  assumes dist: "distinct (map fst (result data))"
  shows "(\<exists>s. sorted_intervals data = Inr s
           \<and> sorted (map snd s)
           \<and> set s = set (sizes (result data))
           \<and> (\<forall>n. filter (\<lambda>p. snd p = n) s = filter (\<lambda>p. snd p = n) (sizes (result data)))
           \<and> get_optimal_interval [] data =
               (case List.find (\<lambda>p. 500 < snd p) s of
                  Some p \<Rightarrow> Inr (Some (fst p))
                | None \<Rightarrow>
                    if s = [] then Inl IndexError
                    else if snd (last s) = 0 then Inr None
                    else Inr (Some (fst (last s)))))
         \<and> ((\<exists>(k, candles) \<in> set (result data). 500 < length candles) \<longrightarrow>
              (\<exists>k candles. get_optimal_interval [] data = Inr (Some k)
                 \<and> 500 < length candles
                 \<and> (\<forall>(k', candles') \<in> set (result data).
                       500 < length candles' \<longrightarrow> length candles \<le> length candles')
                 \<and> List.find (\<lambda>(k', candles'). length candles' = length candles) (result data)
                     = Some (k, candles)))
         \<and> ((\<forall>(k, candles) \<in> set (result data). length candles \<le> 500)
              \<and> (\<exists>(k, candles) \<in> set (result data). 0 < length candles) \<longrightarrow>
              (\<exists>k candles. get_optimal_interval [] data = Inr (Some k)
                 \<and> (\<forall>(k', candles') \<in> set (result data). length candles' \<le> length candles)
                 \<and> List.find (\<lambda>(k', candles'). length candles' = length candles)
                     (rev (result data)) = Some (k, candles)))"
proof (intro conjI impI)
  let ?s = "sort_key snd (sizes (result data))"
  have stable: "filter (\<lambda>p. snd p = n) ?s = filter (\<lambda>p. snd p = n) (sizes (result data))" for n
    by (rule sort_key_stable)
  have walk: "get_optimal_interval [] data =
               (case List.find (\<lambda>p. 500 < snd p) ?s of
                  Some p \<Rightarrow> Inr (Some (fst p))
                | None \<Rightarrow>
                    if ?s = [] then Inl IndexError
                    else if snd (last ?s) = 0 then Inr None
                    else Inr (Some (fst (last ?s))))"
    using get_optimal_interval_unforced [OF dist] by (simp add: Let_def)
  show "\<exists>s. sorted_intervals data = Inr s
           \<and> sorted (map snd s)
           \<and> set s = set (sizes (result data))
           \<and> (\<forall>n. filter (\<lambda>p. snd p = n) s = filter (\<lambda>p. snd p = n) (sizes (result data)))
           \<and> get_optimal_interval [] data =
               (case List.find (\<lambda>p. 500 < snd p) s of
                  Some p \<Rightarrow> Inr (Some (fst p))
                | None \<Rightarrow>
                    if s = [] then Inl IndexError
                    else if snd (last s) = 0 then Inr None
                    else Inr (Some (fst (last s))))"
    using sorted_intervals_eq [OF dist] stable walk
    by (intro exI [of _ ?s]) simp
next
  let ?s = "sort_key snd (sizes (result data))"
  have stable: "filter (\<lambda>p. snd p = n) ?s = filter (\<lambda>p. snd p = n) (sizes (result data))" for n
    by (rule sort_key_stable)
  assume "\<exists>(k, candles) \<in> set (result data). 500 < length candles"
  then obtain k0 c0 where "(k0, c0) \<in> set (result data)" "500 < length c0" by auto
  then have "(k0, length c0) \<in> set ?s \<and> 500 < snd (k0, length c0)"
    by (force simp: set_sizes)
  then have "List.find (\<lambda>p. 500 < snd p) ?s \<noteq> None"
    unfolding find_None_iff by blast
  then obtain p where fp: "List.find (\<lambda>p. 500 < snd p) ?s = Some p" by auto
  then have "p \<in> set ?s" and big: "500 < snd p"
    by (auto dest: find_Some_mem)
  then obtain k candles where kc: "(k, candles) \<in> set (result data)"
    and p: "p = (k, length candles)"
    by (auto simp: set_sizes)
  have ret: "get_optimal_interval [] data = Inr (Some k)"
    by (simp add: get_optimal_interval_unforced [OF dist] fp p)
  have least: "length candles \<le> length candles'"
    if "(k', candles') \<in> set (result data)" "500 < length candles'" for k' candles'
  proof -
    from that have "(k', length candles') \<in> set ?s" by (force simp: set_sizes)
    from find_sorted_least [of snd ?s _ p, OF _ fp this] that(2) show ?thesis
      by (simp add: p)
  qed
  from find_first_of_key [of "\<lambda>p. 500 < snd p" ?s p snd, OF fp] big
  have "List.find (\<lambda>q. snd q = snd p) ?s = Some p" by simp
  then have "List.find (\<lambda>q. snd q = length candles) (sizes (result data)) = Some (k, length candles)"
    by (simp add: find_as_filter stable p)
  from bucket_of_size [OF dist kc this] have first:
    "List.find (\<lambda>(k', candles'). length candles' = length candles) (result data) = Some (k, candles)"
    by simp
  from ret big p least first
  show "\<exists>k candles. get_optimal_interval [] data = Inr (Some k)
                 \<and> 500 < length candles
                 \<and> (\<forall>(k', candles') \<in> set (result data).
                       500 < length candles' \<longrightarrow> length candles \<le> length candles')
                 \<and> List.find (\<lambda>(k', candles'). length candles' = length candles) (result data)
                     = Some (k, candles)"
    by (intro exI [of _ k] exI [of _ candles]) auto
next
  let ?s = "sort_key snd (sizes (result data))"
  have stable: "filter (\<lambda>p. snd p = n) ?s = filter (\<lambda>p. snd p = n) (sizes (result data))" for n
    by (rule sort_key_stable)
  assume a: "(\<forall>(k, candles) \<in> set (result data). length candles \<le> 500)
              \<and> (\<exists>(k, candles) \<in> set (result data). 0 < length candles)"
  then have none: "List.find (\<lambda>p. 500 < snd p) ?s = None"
    unfolding find_None_iff by (fastforce simp: set_sizes)
  from a obtain k0 c0 where m0: "(k0, c0) \<in> set (result data)" and p0: "0 < length c0" by auto
  then have "(k0, length c0) \<in> set ?s" by (force simp: set_sizes)
  then have ne: "?s \<noteq> []" by (auto simp: sort_key_Nil_iff)
  then have "last ?s \<in> set ?s" by (rule last_in_set)
  then obtain k candles where kc: "(k, candles) \<in> set (result data)"
    and l: "last ?s = (k, length candles)"
    by (auto simp: set_sizes)
  have greatest: "length candles' \<le> length candles"
    if "(k', candles') \<in> set (result data)" for k' candles'
  proof -
    from that have "(k', length candles') \<in> set ?s" by (force simp: set_sizes)
    from sorted_last_greatest [of snd ?s, OF _ this] show ?thesis by (simp add: l)
  qed
  from greatest [OF m0] p0 have nz: "length candles \<noteq> 0" by linarith
  have ret: "get_optimal_interval [] data = Inr (Some k)"
    using ne nz by (simp add: get_optimal_interval_unforced [OF dist] none l Let_def)
  let ?F = "filter (\<lambda>q. snd q = length candles) (sizes (result data))"
  from ne l have "last (filter (\<lambda>q. snd q = length candles) ?s) = (k, length candles)"
    by (simp add: last_filter_keep)
  then have lastF: "last ?F = (k, length candles)" by (simp add: stable)
  from kc have "?F \<noteq> []" by (force simp: filter_empty_conv set_sizes)
  with lastF have "List.find (\<lambda>q. snd q = length candles) (rev (sizes (result data)))
      = Some (k, length candles)"
    by (simp add: find_rev_as_filter)
  then have "List.find (\<lambda>q. snd q = length candles) (sizes (rev (result data)))
      = Some (k, length candles)"
    by (simp add: sizes_rev)
  from bucket_of_size [OF dist kc this] have lastb:
    "List.find (\<lambda>(k', candles'). length candles' = length candles) (rev (result data))
      = Some (k, candles)"
    by simp
  from ret greatest lastb
  show "\<exists>k candles. get_optimal_interval [] data = Inr (Some k)
                 \<and> (\<forall>(k', candles') \<in> set (result data). length candles' \<le> length candles)
                 \<and> List.find (\<lambda>(k', candles'). length candles' = length candles)
                     (rev (result data)) = Some (k, candles)"
    by (intro exI [of _ k] exI [of _ candles]) auto
qed

theorem ties_in_mapping_order_witness:
  "distinct (map fst (result dense_response))
   \<and> (\<exists>(k, candles) \<in> set (result dense_response). 500 < length candles)
   \<and> (\<exists>s. sorted_intervals dense_response = Inr s
           \<and> sorted (map snd s)
           \<and> set s = set (sizes (result dense_response))
           \<and> (\<forall>n. filter (\<lambda>p. snd p = n) s
                  = filter (\<lambda>p. snd p = n) (sizes (result dense_response)))
           \<and> get_optimal_interval [] dense_response =
               (case List.find (\<lambda>p. 500 < snd p) s of
                  Some p \<Rightarrow> Inr (Some (fst p))
                | None \<Rightarrow>
                    if s = [] then Inl IndexError
                    else if snd (last s) = 0 then Inr None
                    else Inr (Some (fst (last s)))))
   \<and> (\<exists>k candles. get_optimal_interval [] dense_response = Inr (Some k)
           \<and> 500 < length candles
           \<and> (\<forall>(k', candles') \<in> set (result dense_response).
                 500 < length candles' \<longrightarrow> length candles \<le> length candles')
           \<and> List.find (\<lambda>(k', candles'). length candles' = length candles)
                (result dense_response) = Some (k, candles))
   \<and> get_optimal_interval [] dense_response = Inr (Some ''180'')
   \<and> distinct (map fst (result sparse_response))
   \<and> list_all (\<lambda>(k, candles). length candles \<le> 500) (result sparse_response)
   \<and> (\<exists>(k, candles) \<in> set (result sparse_response). 0 < length candles)
   \<and> (\<exists>k candles. get_optimal_interval [] sparse_response = Inr (Some k)
           \<and> (\<forall>(k', candles') \<in> set (result sparse_response).
                 length candles' \<le> length candles)
           \<and> List.find (\<lambda>(k', candles'). length candles' = length candles)
                (rev (result sparse_response)) = Some (k, candles))
   \<and> get_optimal_interval [] sparse_response = Inr (Some ''900'')"
proof -
  have d1: "distinct (map fst (result dense_response))"
    by (simp add: dense_response_def)
  have d2: "\<exists>(k, candles) \<in> set (result dense_response). 500 < length candles"
    by (simp add: dense_response_def)
  have s1: "distinct (map fst (result sparse_response))"
    by (simp add: sparse_response_def)
  have s2: "\<forall>(k, candles) \<in> set (result sparse_response). length candles \<le> 500"
    by (simp add: sparse_response_def)
  then have s2': "list_all (\<lambda>(k, candles). length candles \<le> 500) (result sparse_response)"
    by (simp only: list_all_iff)
  have s3: "\<exists>(k, candles) \<in> set (result sparse_response). 0 < length candles"
    by (simp add: sparse_response_def)
  have e1: "get_optimal_interval [] dense_response = Inr (Some ''180'')"
    by (simp add: dense_response_def get_optimal_interval_def sorted_intervals_def
        dict_getitem_def dict_setitem_def dict_of_items_def py_sorted_def)
  have e2: "get_optimal_interval [] sparse_response = Inr (Some ''900'')"
    by (simp add: sparse_response_def get_optimal_interval_def sorted_intervals_def
        dict_getitem_def dict_setitem_def dict_of_items_def py_sorted_def)
  from ties_in_mapping_order [OF d1] ties_in_mapping_order [OF s1] d1 d2 s1 s2 s3 s2' e1 e2
  show ?thesis by blast
qed

section \<open>The offset of a note\<close>

lemma fraction_above:
  "0 < d \<Longrightarrow> (9 / 10 < (of_int a / of_int d :: rat)) \<longleftrightarrow> 9 * d < 10 * a"
proof -
  assume d: "0 < d"
  then have "(9 / 10 < (of_int a / of_int d :: rat)) \<longleftrightarrow> (9 * of_int d < 10 * (of_int a :: rat))"
    by (simp add: field_simps)
  also have "\<dots> \<longleftrightarrow> (of_int (9 * d) < (of_int (10 * a) :: rat))" by simp
  also have "\<dots> \<longleftrightarrow> 9 * d < 10 * a" by (simp only: of_int_less_iff)
  finally show ?thesis .
qed

lemma fraction_below:
  "0 < d \<Longrightarrow> ((of_int a / of_int d :: rat) < 1 / 10) \<longleftrightarrow> 10 * a < d"
proof -
  assume d: "0 < d"
  then have "((of_int a / of_int d :: rat) < 1 / 10) \<longleftrightarrow> (10 * (of_int a :: rat) < of_int d)"
    by (simp add: field_simps)
  also have "\<dots> \<longleftrightarrow> (of_int (10 * a) < (of_int d :: rat))" by simp
  also have "\<dots> \<longleftrightarrow> 10 * a < d" by (simp only: of_int_less_iff)
  finally show ?thesis .
qed

lemma first_tenth:
  "9 * (e - s) < 10 * (e - t) \<longleftrightarrow> 10 * (t - s) < e - (s :: int)"
  by auto

text \<open>
  C5. For a range whose start second is before its end second, the offset of a note is
  computed from \<open>fraction = (range_end - point_time) / (range_end - range_start)\<close>: it
  is 100 when the fraction is above nine tenths, which is when the point lies in the first
  tenth of the range, -100 when the fraction is below one tenth, which is when the point
  lies in the last tenth, and 20 otherwise.
\<close>

theorem note_position_thresholds:
  assumes "start_date self div 10 ^ 9 < end_date self div 10 ^ 9"
  shows "let range_start = start_date self div 10 ^ 9;
             range_end = end_date self div 10 ^ 9;
             point_time = point_date div 10 ^ 9;
             fraction = (of_int (range_end - point_time) / of_int (range_end - range_start) :: rat)
         in get_note_position_x self point_date =
              Inr (if fraction > 9 / 10 then 100 else if fraction < 1 / 10 then - 100 else 20)
            \<and> (fraction > 9 / 10 \<longleftrightarrow> 10 * (point_time - range_start) < range_end - range_start)
            \<and> (fraction < 1 / 10 \<longleftrightarrow> 10 * (range_end - point_time) < range_end - range_start)"
proof -
  let ?d = "end_date self div 10 ^ 9 - start_date self div 10 ^ 9"
  let ?a = "end_date self div 10 ^ 9 - point_date div 10 ^ 9"
  from assms have d: "0 < ?d" by simp
  have ret: "get_note_position_x self point_date =
      Inr (if (of_int ?a / of_int ?d :: rat) > 9 / 10 then 100
           else if (of_int ?a / of_int ?d :: rat) < 1 / 10 then - 100 else 20)"
    using d by (simp add: get_note_position_x_def py_truediv_def Let_def)
  have above: "((of_int ?a / of_int ?d :: rat) > 9 / 10) \<longleftrightarrow>
      10 * (point_date div 10 ^ 9 - start_date self div 10 ^ 9) < ?d"
    unfolding fraction_above [OF d] by (rule first_tenth)
  have below: "((of_int ?a / of_int ?d :: rat) < 1 / 10) \<longleftrightarrow> 10 * ?a < ?d"
    by (rule fraction_below [OF d])
  from ret above below show ?thesis unfolding Let_def by blast
qed

theorem note_position_thresholds_witness:
  "start_date example_chart div 10 ^ 9 < end_date example_chart div 10 ^ 9
   \<and> get_note_position_x example_chart (1516402800 * 10 ^ 9 + 3600 * 10 ^ 9) = Inr 100
   \<and> get_note_position_x example_chart (1517519580 * 10 ^ 9) = Inr 20
   \<and> get_note_position_x example_chart (1519081200 * 10 ^ 9) = Inr (- 100)"
proof -
  have h: "start_date example_chart div 10 ^ 9 < end_date example_chart div 10 ^ 9"
    by (simp add: example_chart_def)
  from note_position_thresholds [OF h, of "1516402800 * 10 ^ 9 + 3600 * 10 ^ 9"]
    note_position_thresholds [OF h, of "1517519580 * 10 ^ 9"]
    note_position_thresholds [OF h, of "1519081200 * 10 ^ 9"] h
  show ?thesis by (simp add: example_chart_def Let_def)
qed

text \<open>
  C6. When the start second and the end second of the range are equal, the division of
  \<^verbatim>\<open>__get_note_position_x\<close> is a division by zero: the method returns no offset and
  \<^verbatim>\<open>ZeroDivisionError\<close> leaves it.
\<close>

theorem degenerate_range_raises:
  assumes "start_date self div 10 ^ 9 = end_date self div 10 ^ 9"
  shows "get_note_position_x self point_date = Inl ZeroDivisionError"
  using assms by (simp add: get_note_position_x_def py_truediv_def Let_def)

theorem degenerate_range_raises_witness:
  "start_date degenerate_chart div 10 ^ 9 = end_date degenerate_chart div 10 ^ 9
   \<and> get_note_position_x degenerate_chart (1516402800 * 10 ^ 9) = Inl ZeroDivisionError"
proof -
  have h: "start_date degenerate_chart div 10 ^ 9 = end_date degenerate_chart div 10 ^ 9"
    by (simp add: degenerate_chart_def example_chart_def)
  from degenerate_range_raises [OF h] h show ?thesis by simp
qed

section \<open>Markers\<close>

lemma note_position_start:
  assumes "start_date self div 10 ^ 9 < end_date self div 10 ^ 9"
  shows "get_note_position_x self (start_date self) = Inr 100"
  using assms by (simp add: get_note_position_x_def py_truediv_def Let_def)

lemma note_position_end:
  assumes "start_date self div 10 ^ 9 < end_date self div 10 ^ 9"
  shows "get_note_position_x self (end_date self) = Inr (- 100)"
  using assms by (simp add: get_note_position_x_def py_truediv_def Let_def)

lemma seconds_less:
  assumes "(a :: int) div 10 ^ 9 < b div 10 ^ 9"
  shows "a < b"
proof (rule ccontr)
  assume "\<not> a < b"
  then have "b \<le> a" by simp
  then have "b div 10 ^ 9 \<le> a div 10 ^ 9" by (rule zdiv_mono1) simp
  with assms show False by simp
qed

text \<open>
  C7, as stated, fails in two ways. On a range of no length a marker at the boundary gets
  its trace, then the offset computation raises \<^verbatim>\<open>ZeroDivisionError\<close> and no
  annotation is added. On a chart whose start date is after its end date a marker at the
  start date is after the end date, and is dropped.
\<close>

theorem boundary_marker_counterexample:
  "1516402800 * 10 ^ 9 = start_date degenerate_chart
   \<and> 1516402800 * 10 ^ 9 = end_date degenerate_chart
   \<and> fst (add_buy_sell_point example_fmt degenerate_chart
        ''b'' (2 / 10000) 40000 ''20/01/2018 00:00'' (1516402800 * 10 ^ 9)) = Inl ZeroDivisionError
   \<and> fig_annotations (fig (snd (add_buy_sell_point example_fmt degenerate_chart
        ''b'' (2 / 10000) 40000 ''20/01/2018 00:00'' (1516402800 * 10 ^ 9)))) = []
   \<and> 1519081200 * 10 ^ 9 = start_date reversed_chart
   \<and> add_buy_sell_point example_fmt reversed_chart
        ''b'' (2 / 10000) 40000 ''20/02/2018 00:00'' (1519081200 * 10 ^ 9)
       = (Inr (), reversed_chart)"
  by (simp add: add_buy_sell_point_def get_note_position_x_def py_truediv_def
      degenerate_chart_def reversed_chart_def example_chart_def create_figure_def
      append_trace_def Let_def)

text \<open>
  C7, amended. A marker before the start date or after the end date is dropped: the chart
  is unchanged and nothing is raised. When the start second of the range is before its end
  second, a marker at the start date or at the end date is included: its trace and its
  annotation are appended, with offset 100 at the start and -100 at the end, and nothing
  is raised.
\<close>

theorem marker_range_check:
  "(point_date < start_date self \<or> end_date self < point_date \<longrightarrow>
      add_buy_sell_point fmt self label quantity price date point_date = (Inr (), self))
   \<and> (start_date self div 10 ^ 9 < end_date self div 10 ^ 9
        \<and> (point_date = start_date self \<or> point_date = end_date self) \<longrightarrow>
      add_buy_sell_point fmt self label quantity price date point_date =
        (Inr (),
         self\<lparr>fig :=
           \<lparr>fig_data = fig_data (fig self) @
              [Scatter point_date price
                 (if label = ''b'' \<or> label = ''B'' then ''#bbdc86'' else ''#e70039'')],
            fig_annotations = fig_annotations (fig self) @
              [\<lparr>ann_x = point_date, ann_y = price,
                ann_text = fmt label quantity (pair self) price date,
                ann_ax = (if point_date = start_date self then 100 else - 100)\<rparr>]\<rparr>\<rparr>))"
proof (intro conjI impI)
  assume "point_date < start_date self \<or> end_date self < point_date"
  then show "add_buy_sell_point fmt self label quantity price date point_date = (Inr (), self)"
    by (auto simp: add_buy_sell_point_def)
next
  assume a: "start_date self div 10 ^ 9 < end_date self div 10 ^ 9
        \<and> (point_date = start_date self \<or> point_date = end_date self)"
  then have lt: "start_date self < end_date self" by (auto dest: seconds_less)
  let ?self1 = "self\<lparr>fig := append_trace (fig self) (Scatter point_date price
                 (if label = ''b'' \<or> label = ''B'' then ''#bbdc86'' else ''#e70039''))\<rparr>"
  have h1: "start_date ?self1 div 10 ^ 9 < end_date ?self1 div 10 ^ 9"
    using a by simp
  from a have pos: "get_note_position_x ?self1 point_date =
      Inr (if point_date = start_date self then 100 else - 100)"
    using note_position_start [OF h1] note_position_end [OF h1] lt by auto
  from a lt have inr: "\<not> (point_date < start_date self \<or> point_date > end_date self)"
    by auto
  show "add_buy_sell_point fmt self label quantity price date point_date =
        (Inr (),
         self\<lparr>fig :=
           \<lparr>fig_data = fig_data (fig self) @
              [Scatter point_date price
                 (if label = ''b'' \<or> label = ''B'' then ''#bbdc86'' else ''#e70039'')],
            fig_annotations = fig_annotations (fig self) @
              [\<lparr>ann_x = point_date, ann_y = price,
                ann_text = fmt label quantity (pair self) price date,
                ann_ax = (if point_date = start_date self then 100 else - 100)\<rparr>]\<rparr>\<rparr>)"
    unfolding add_buy_sell_point_def Let_def
    by (simp only: inr if_False pos sum.case) (simp add: append_trace_def add_annotation_def)
qed

theorem marker_range_check_witness:
  "end_date example_chart < 1619122380 * 10 ^ 9
   \<and> add_buy_sell_point example_fmt example_chart
         ''s'' (2 / 10000) 40000 ''22/04/2021 22:13'' (1619122380 * 10 ^ 9)
       = (Inr (), example_chart)
   \<and> start_date example_chart div 10 ^ 9 < end_date example_chart div 10 ^ 9
   \<and> 1519081200 * 10 ^ 9 = end_date example_chart
   \<and> fst (add_buy_sell_point example_fmt example_chart
         ''s'' (2 / 10000) 40000 ''20/02/2018 00:00'' (1519081200 * 10 ^ 9)) = Inr ()
   \<and> fig_annotations (fig (snd (add_buy_sell_point example_fmt example_chart
         ''s'' (2 / 10000) 40000 ''20/02/2018 00:00'' (1519081200 * 10 ^ 9))))
       = [\<lparr>ann_x = 1519081200 * 10 ^ 9, ann_y = 40000,
           ann_text = ''s btceur 20/02/2018 00:00'', ann_ax = - 100\<rparr>]"
proof -
  have h1: "end_date example_chart < 1619122380 * 10 ^ 9"
    by (simp add: example_chart_def)
  have h2: "start_date example_chart div 10 ^ 9 < end_date example_chart div 10 ^ 9"
    by (simp add: example_chart_def)
  have h3: "1519081200 * 10 ^ 9 = end_date example_chart"
    by (simp add: example_chart_def)
  have far: "add_buy_sell_point example_fmt example_chart
         ''s'' (2 / 10000) 40000 ''22/04/2021 22:13'' (1619122380 * 10 ^ 9)
       = (Inr (), example_chart)"
    using marker_range_check [of "1619122380 * 10 ^ 9" example_chart example_fmt
        "''s''" "2 / 10000" 40000 "''22/04/2021 22:13''"] h1
    by blast
  have edge: "add_buy_sell_point example_fmt example_chart
         ''s'' (2 / 10000) 40000 ''20/02/2018 00:00'' (1519081200 * 10 ^ 9) =
        (Inr (),
         example_chart\<lparr>fig :=
           \<lparr>fig_data = fig_data (fig example_chart) @
              [Scatter (1519081200 * 10 ^ 9) 40000
                 (if ''s'' = ''b'' \<or> ''s'' = ''B'' then ''#bbdc86'' else ''#e70039'')],
            fig_annotations = fig_annotations (fig example_chart) @
              [\<lparr>ann_x = 1519081200 * 10 ^ 9, ann_y = 40000,
                ann_text = example_fmt ''s'' (2 / 10000) (pair example_chart) 40000 ''20/02/2018 00:00'',
                ann_ax = (if 1519081200 * 10 ^ 9 = start_date example_chart then 100 else - 100)\<rparr>]\<rparr>\<rparr>)"
    using marker_range_check [of "1519081200 * 10 ^ 9" example_chart example_fmt
        "''s''" "2 / 10000" 40000 "''20/02/2018 00:00''"] h2 h3
    by blast
  have ann: "fig_annotations (fig (snd (add_buy_sell_point example_fmt example_chart
         ''s'' (2 / 10000) 40000 ''20/02/2018 00:00'' (1519081200 * 10 ^ 9))))
       = [\<lparr>ann_x = 1519081200 * 10 ^ 9, ann_y = 40000,
           ann_text = ''s btceur 20/02/2018 00:00'', ann_ax = - 100\<rparr>]"
    unfolding edge
    by (simp add: example_chart_def example_fmt_def create_figure_def append_trace_def Let_def)
  have ok: "fst (add_buy_sell_point example_fmt example_chart
         ''s'' (2 / 10000) 40000 ''20/02/2018 00:00'' (1519081200 * 10 ^ 9)) = Inr ()"
    unfolding edge by simp
  from h1 h2 h3 far ok ann show ?thesis by blast
qed

text \<open>
  C10. On a figure that holds the candlestick trace, the volume trace and any marker traces
  after them, \<^verbatim>\<open>delete_buy_sell_points\<close> succeeds, empties the annotations and leaves
  exactly the first two traces, unchanged; the rest of the chart is untouched.
  \<^verbatim>\<open>borrar_puntos_compra_venta\<close> of grafico.py does the same.
\<close>

theorem delete_keeps_base_traces:
  assumes "fig_data (fig self) = candlesticks # volumen # markers"
  shows "delete_buy_sell_points self =
           (Inr (), self\<lparr>fig := (fig self)\<lparr>fig_data := [candlesticks, volumen], fig_annotations := []\<rparr>\<rparr>)
         \<and> borrar_puntos_compra_venta self = delete_buy_sell_points self"
  using assms by (simp add: delete_buy_sell_points_def borrar_puntos_compra_venta_def py_index_def)

theorem delete_keeps_base_traces_witness:
  "fig_data (fig marked_chart) =
     Candlestick [1516406400 * 10 ^ 9] [9000] [9100] [8900] [9050]
     # Bar [1516406400 * 10 ^ 9] [12]
     # [Scatter (1517519580 * 10 ^ 9) 40000 ''#bbdc86'',
        Scatter (1519081200 * 10 ^ 9) 40000 ''#e70039'']
   \<and> length (fig_annotations (fig marked_chart)) = 2
   \<and> delete_buy_sell_points marked_chart = (Inr (), example_chart)
   \<and> borrar_puntos_compra_venta marked_chart = (Inr (), example_chart)"
proof -
  have m: "marked_chart =
     example_chart\<lparr>fig :=
       \<lparr>fig_data =
          [Candlestick [1516406400 * 10 ^ 9] [9000] [9100] [8900] [9050],
           Bar [1516406400 * 10 ^ 9] [12],
           Scatter (1517519580 * 10 ^ 9) 40000 ''#bbdc86'',
           Scatter (1519081200 * 10 ^ 9) 40000 ''#e70039''],
        fig_annotations =
          [\<lparr>ann_x = 1517519580 * 10 ^ 9, ann_y = 40000,
             ann_text = ''b btceur 01/02/2018 22:13'', ann_ax = 20\<rparr>,
           \<lparr>ann_x = 1519081200 * 10 ^ 9, ann_y = 40000,
             ann_text = ''s btceur 20/02/2018 00:00'', ann_ax = - 100\<rparr>]\<rparr>\<rparr>"
    by (simp add: marked_chart_def add_buy_sell_point_def get_note_position_x_def
        py_truediv_def example_chart_def example_fmt_def create_figure_def
        append_trace_def add_annotation_def Let_def)
  have h: "fig_data (fig marked_chart) =
     Candlestick [1516406400 * 10 ^ 9] [9000] [9100] [8900] [9050]
     # Bar [1516406400 * 10 ^ 9] [12]
     # [Scatter (1517519580 * 10 ^ 9) 40000 ''#bbdc86'',
        Scatter (1519081200 * 10 ^ 9) 40000 ''#e70039'']"
    by (simp add: m)
  have l: "length (fig_annotations (fig marked_chart)) = 2"
    by (simp add: m)
  have e: "marked_chart\<lparr>fig := (fig marked_chart)\<lparr>fig_data :=
        [Candlestick [1516406400 * 10 ^ 9] [9000] [9100] [8900] [9050],
         Bar [1516406400 * 10 ^ 9] [12]], fig_annotations := []\<rparr>\<rparr> = example_chart"
    by (simp add: m) (simp add: example_chart_def create_figure_def append_trace_def Let_def)
  from delete_keeps_base_traces [OF h]
  have d: "delete_buy_sell_points marked_chart = (Inr (), example_chart)
      \<and> borrar_puntos_compra_venta marked_chart = delete_buy_sell_points marked_chart"
    unfolding e .
  then have b: "borrar_puntos_compra_venta marked_chart = (Inr (), example_chart)"
    by simp
  from h l d b show ?thesis by blast
qed

end
